theory Spec2Isabelle
  imports Complex_Main
begin

section \<open>Text primitives\<close>

text \<open>
  Transcript text is a Python \<open>str\<close>; it is modelled as a HOL \<open>string\<close>, one \<open>char\<close>
  per code point, which covers the code points below 256. Python floats (confidence
  scores, timestamps) are modelled as exact rationals: the thresholds of the classifier
  (\<open>0.3\<close>, \<open>0.7\<close>, \<open>0.2\<close>, \<open>0.5\<close>) are compared far from any rounding boundary,
  except \<open>0.3 + 0.2 >= 0.5\<close>, which holds for floats as it does for rationals.
\<close>

definition lower_char :: "char \<Rightarrow> char" where
  \<comment> \<open>one character of \<open>str.lower()\<close>: A-Z and the capital letters of Latin-1\<close>
  "lower_char c = (let n = (of_char c :: nat) in
     if (65 \<le> n \<and> n \<le> 90) \<or> (192 \<le> n \<and> n \<le> 222 \<and> n \<noteq> 215)
     then char_of (n + 32) else c)"

definition lower :: "string \<Rightarrow> string" where
  "lower s = map lower_char s"

fun starts_with :: "string \<Rightarrow> string \<Rightarrow> bool" where
  "starts_with [] s = True"
| "starts_with (k # ks) [] = False"
| "starts_with (k # ks) (c # cs) = (k = c \<and> starts_with ks cs)"

fun str_in :: "string \<Rightarrow> string \<Rightarrow> bool" where
  \<comment> \<open>Python's \<open>kw in s\<close> on strings: \<open>kw\<close> occurs in \<open>s\<close> as a contiguous piece\<close>
  "str_in kw [] = starts_with kw []"
| "str_in kw (c # cs) = (starts_with kw (c # cs) \<or> str_in kw cs)"

fun join_sp :: "string list \<Rightarrow> string" where
  \<comment> \<open>\<open>' '.join(words)\<close>\<close>
  "join_sp [] = []"
| "join_sp [w] = w"
| "join_sp (w # v # ws) = w @ CHR '' '' # join_sp (v # ws)"

section \<open>Pattern rules\<close>

text \<open>
  The pattern rules of the source are regular expressions over literals, \<open>\s\<close>,
  character sets, non-capturing groups, alternation and the postfix operators
  \<open>?\<close>, \<open>*\<close> and \<open>+\<close>. They are kept as syntax trees, and \<open>re.search\<close> is decided
  by derivatives: a pattern is found in a text when some piece of the text starting at
  some position belongs to the pattern's language.
\<close>

datatype regex =
    Zero
  | One
  | Chr char
  | Cls "char list"
  | Space
  | Seq regex regex
  | Alt regex regex
  | Star regex

definition Opt :: "regex \<Rightarrow> regex" where
  "Opt r = Alt r One"

definition Plus :: "regex \<Rightarrow> regex" where
  "Plus r = Seq r (Star r)"

fun lit :: "string \<Rightarrow> regex" where
  "lit [] = One"
| "lit [c] = Chr c"
| "lit (c # d # cs) = Seq (Chr c) (lit (d # cs))"

fun seqs :: "regex list \<Rightarrow> regex" where
  "seqs [] = One"
| "seqs [r] = r"
| "seqs (r # q # rs) = Seq r (seqs (q # rs))"

fun alts :: "regex list \<Rightarrow> regex" where
  "alts [] = Zero"
| "alts [r] = r"
| "alts (r # q # rs) = Alt r (alts (q # rs))"

definition ws :: regex where
  \<comment> \<open>\<open>\s+\<close>\<close>
  "ws = Plus Space"

definition is_space :: "char \<Rightarrow> bool" where
  \<comment> \<open>the characters \<open>\s\<close> matches in a \<open>str\<close> pattern, below code point 256\<close>
  "is_space c = (let n = (of_char c :: nat) in
     (9 \<le> n \<and> n \<le> 13) \<or> (28 \<le> n \<and> n \<le> 32) \<or> n = 133 \<or> n = 160)"

definition same_char :: "bool \<Rightarrow> char \<Rightarrow> char \<Rightarrow> bool" where
  \<comment> \<open>the flag is \<open>re.IGNORECASE\<close>\<close>
  "same_char icase p c = (if icase then lower_char p = lower_char c else p = c)"

fun nullable :: "regex \<Rightarrow> bool" where
  "nullable Zero = False"
| "nullable One = True"
| "nullable (Chr c) = False"
| "nullable (Cls cs) = False"
| "nullable Space = False"
| "nullable (Seq r q) = (nullable r \<and> nullable q)"
| "nullable (Alt r q) = (nullable r \<or> nullable q)"
| "nullable (Star r) = True"

definition seq :: "regex \<Rightarrow> regex \<Rightarrow> regex" where
  "seq r q = (if r = Zero \<or> q = Zero then Zero else Seq r q)"

definition alt :: "regex \<Rightarrow> regex \<Rightarrow> regex" where
  "alt r q = (if r = Zero then q else if q = Zero then r else Alt r q)"

fun deriv :: "bool \<Rightarrow> char \<Rightarrow> regex \<Rightarrow> regex" where
  "deriv i c Zero = Zero"
| "deriv i c One = Zero"
| "deriv i c (Chr p) = (if same_char i p c then One else Zero)"
| "deriv i c (Cls ps) = (if list_ex (\<lambda>p. same_char i p c) ps then One else Zero)"
| "deriv i c Space = (if is_space c then One else Zero)"
| "deriv i c (Seq r q) =
     (if nullable r then alt (seq (deriv i c r) q) (deriv i c q) else seq (deriv i c r) q)"
| "deriv i c (Alt r q) = alt (deriv i c r) (deriv i c q)"
| "deriv i c (Star r) = seq (deriv i c r) (Star r)"

fun match_here :: "bool \<Rightarrow> regex \<Rightarrow> string \<Rightarrow> bool" where
  \<comment> \<open>some prefix of the text belongs to the pattern\<close>
  "match_here i r [] = nullable r"
| "match_here i r (c # cs) =
     (if r = Zero then False else nullable r \<or> match_here i (deriv i c r) cs)"

fun re_search :: "bool \<Rightarrow> regex \<Rightarrow> string \<Rightarrow> bool" where
  \<comment> \<open>\<open>re.search(pattern, text)\<close> finds a match\<close>
  "re_search i r [] = match_here i r []"
| "re_search i r (c # cs) = (match_here i r (c # cs) \<or> re_search i r cs)"

section \<open>The taxonomy of medical tests\<close>

record test_config =
  cfg_keywords :: "string list"
  cfg_patterns :: "regex list"

definition spine_config :: test_config where
  "spine_config = \<lparr>
  cfg_keywords = [''spine'', ''spinal'', ''vertebra'', ''vertebrae'', ''back''],
  cfg_patterns = [
    seqs [lit ''check'', ws, Opt (seqs [lit ''the'', ws]), lit ''spine''],
    seqs [lit ''examine'', ws, Opt (seqs [lit ''the'', ws]), lit ''back''],
    seqs [lit ''spinal'', ws, alts [lit ''examination'', lit ''assessment'']]]\<rparr>"

definition lumbar_rom_config :: test_config where
  "lumbar_rom_config = \<lparr>
  cfg_keywords = [''lumbar'', ''lower back'', ''range of motion'', ''rom'', ''flexion'',
    ''extension'', ''bend forward'', ''bend backward''],
  cfg_patterns = [
    seqs [alts [lit ''lumbar'', seqs [lit ''lower'', ws, lit ''back'']], ws,
      lit ''range'', ws, lit ''of'', ws, lit ''motion''],
    seqs [alts [lit ''forward'', lit ''backward''], ws,
      alts [lit ''flexion'', lit ''bending'']],
    seqs [lit ''rom'', ws, lit ''test'']]\<rparr>"

definition straight_leg_raise_config :: test_config where
  "straight_leg_raise_config = \<lparr>
  cfg_keywords = [''straight leg'', ''slr'', ''leg raise'', ''lasegue'', ''raise your leg''],
  cfg_patterns = [
    seqs [lit ''straight'', ws, lit ''leg'', ws, alts [lit ''raise'', lit ''test'']],
    seqs [lit ''slr'', ws, lit ''test''],
    seqs [lit ''lasegue'', Star (Cls [CHR 0x27, CHR ''s'']), ws,
      alts [lit ''test'', lit ''sign'']]]\<rparr>"

definition waddells_signs_config :: test_config where
  "waddells_signs_config = \<lparr>
  cfg_keywords = [''waddell'', ''non-organic'', ''behavioral'', ''non organic''],
  cfg_patterns = [
    seqs [lit ''waddell'', Star (Cls [CHR 0x27, CHR ''s'']), ws,
      alts [lit ''signs'', lit ''test'']],
    seqs [lit ''non'', Alt (Chr CHR ''-'') Space, lit ''organic'', ws,
      alts [lit ''signs'', lit ''findings'']]]\<rparr>"

definition cervical_rom_config :: test_config where
  "cervical_rom_config = \<lparr>
  cfg_keywords = [''cervical'', ''neck'', ''rotation'', ''lateral flexion'', ''turn your head'',
    ''neck movement''],
  cfg_patterns = [
    seqs [lit ''cervical'', ws,
      alts [seqs [lit ''range'', ws, lit ''of'', ws, lit ''motion''], lit ''rom'']],
    seqs [lit ''neck'', ws, alts [lit ''rotation'', lit ''flexion'', lit ''movement'']],
    seqs [lit ''turn'', ws, Opt (seqs [lit ''your'', ws]), lit ''head'']]\<rparr>"

definition gait_config :: test_config where
  "gait_config = \<lparr>
  cfg_keywords = [''gait'', ''walking'', ''ambulation'', ''mobility'', ''walk'', ''heel-to-toe'',
    ''tandem''],
  cfg_patterns = [
    seqs [lit ''gait'', ws, alts [lit ''analysis'', lit ''assessment'', lit ''test'']],
    seqs [alts [lit ''walk'', lit ''walking''], ws, alts [lit ''test'', lit ''assessment'']],
    seqs [lit ''heel'', Alt (Chr CHR ''-'') Space, lit ''to'', Alt (Chr CHR ''-'') Space,
      lit ''toe''],
    seqs [lit ''tandem'', ws, alts [lit ''walk'', lit ''gait'']]]\<rparr>"

definition neurological_config :: test_config where
  "neurological_config = \<lparr>
  cfg_keywords = [''reflex'', ''reflexes'', ''sensation'', ''sensory'', ''motor'', ''strength'',
    ''muscle strength'', ''patellar'', ''achilles''],
  cfg_patterns = [
    seqs [alts [lit ''reflex'', lit ''reflexes''], ws, lit ''test''],
    seqs [alts [lit ''sensory'', lit ''sensation''], ws,
      alts [lit ''test'', lit ''examination'']],
    seqs [lit ''motor'', ws, alts [lit ''strength'', lit ''function'']],
    seqs [alts [lit ''patellar'', lit ''achilles'', lit ''bicep'', lit ''tricep''], ws,
      lit ''reflex'']]\<rparr>"

definition palpation_config :: test_config where
  "palpation_config = \<lparr>
  cfg_keywords = [''palpate'', ''palpating'', ''feel'', ''touch'', ''tender'', ''tenderness'',
    ''press''],
  cfg_patterns = [
    seqs [alts [lit ''palpate'', lit ''palpating''], ws, Opt (seqs [lit ''the'', ws]),
      alts [lit ''spine'', lit ''back'', lit ''neck'', lit ''area'']],
    seqs [lit ''check'', ws, lit ''for'', ws, lit ''tenderness''],
    seqs [lit ''feel'', ws, Opt (seqs [lit ''the'', ws]),
      alts [lit ''spine'', lit ''muscles'']]]\<rparr>"

definition orthopedic_config :: test_config where
  "orthopedic_config = \<lparr>
  cfg_keywords = [''orthopedic'', ''musculoskeletal'', ''joint'', ''hip'', ''knee'', ''shoulder'',
    ''ankle''],
  cfg_patterns = [
    seqs [lit ''orthopedic'', ws,
      alts [lit ''examination'', lit ''assessment'', lit ''test'']],
    seqs [alts [lit ''hip'', lit ''knee'', lit ''shoulder'', lit ''ankle''], ws,
      alts [lit ''test'', lit ''examination'']],
    seqs [lit ''joint'', ws, alts [lit ''mobility'', lit ''function'']]]\<rparr>"

definition cognitive_config :: test_config where
  "cognitive_config = \<lparr>
  cfg_keywords = [''memory'', ''concentration'', ''cognitive'', ''mental status'',
    ''orientation'', ''recall''],
  cfg_patterns = [
    seqs [lit ''cognitive'', ws, alts [lit ''test'', lit ''assessment'', lit ''function'']],
    seqs [lit ''mental'', ws, lit ''status'', ws, lit ''exam''],
    seqs [lit ''memory'', ws, lit ''test''],
    seqs [lit ''orientation'', ws, alts [lit ''test'', lit ''assessment'']]]\<rparr>"

definition TEST_TAXONOMY :: "(string \<times> test_config) list" where
  \<comment> \<open>the dictionary of the source, in insertion order\<close>
  "TEST_TAXONOMY = [
     (''spine'', spine_config),
     (''lumbar_rom'', lumbar_rom_config),
     (''straight_leg_raise'', straight_leg_raise_config),
     (''waddells_signs'', waddells_signs_config),
     (''cervical_rom'', cervical_rom_config),
     (''gait'', gait_config),
     (''neurological'', neurological_config),
     (''palpation'', palpation_config),
     (''orthopedic'', orthopedic_config),
     (''cognitive'', cognitive_config)]"

section \<open>The test intent classifier\<close>

record test_candidate =
  label :: string
  timestamp :: rat
  confidence :: rat
  matched_text :: string

definition declaration_phrases :: "string list" where
  "declaration_phrases = [''now we'', ''let's'', ''going to'', ''want to'', ''need to'',
     ''i'm going to'', ''i'm checking'', ''i need'', ''we're going to'']"

definition keyword_matches :: "test_config \<Rightarrow> string \<Rightarrow> nat" where
  "keyword_matches cfg text_lower =
     length (filter (\<lambda>kw. str_in kw text_lower) (cfg_keywords cfg))"

definition pattern_matches :: "test_config \<Rightarrow> string \<Rightarrow> nat" where
  \<comment> \<open>the patterns are searched with \<open>re.IGNORECASE\<close>\<close>
  "pattern_matches cfg text_lower =
     length (filter (\<lambda>p. re_search True p text_lower) (cfg_patterns cfg))"

definition has_declaration :: "string \<Rightarrow> bool" where
  "has_declaration text_lower = list_ex (\<lambda>phrase. str_in phrase text_lower) declaration_phrases"

definition score :: "test_config \<Rightarrow> string \<Rightarrow> rat" where
  \<comment> \<open>the value of \<open>confidence\<close> when the threshold is tested\<close>
  "score cfg text_lower =
     (let c0 = 0;
          km = keyword_matches cfg text_lower;
          c1 = (if km > 0
                then c0 + 3 / 10 * min (of_nat km / of_nat (length (cfg_keywords cfg))) 1
                else c0);
          c2 = (if pattern_matches cfg text_lower > 0 then c1 + 7 / 10 else c1);
          c3 = (if has_declaration text_lower \<and> c2 > 0 then c2 + 2 / 10 else c2)
      in c3)"

definition classify_category :: "string \<Rightarrow> rat \<Rightarrow> string \<times> test_config \<Rightarrow> test_candidate list" where
  \<comment> \<open>one turn of the loop over the taxonomy: what it appends to \<open>detected\<close>\<close>
  "classify_category text ts entry =
     (let c = score (snd entry) (lower text)
      in if c \<ge> 1 / 2
         then [\<lparr>label = fst entry, timestamp = ts, confidence = min c 1,
                matched_text = take 200 text\<rparr>]
         else [])"

definition analyze_text_for_tests_in ::
  "(string \<times> test_config) list \<Rightarrow> string \<Rightarrow> rat \<Rightarrow> test_candidate list" where
  "analyze_text_for_tests_in taxonomy text ts = concat (map (classify_category text ts) taxonomy)"

definition analyze_text_for_tests :: "string \<Rightarrow> rat \<Rightarrow> test_candidate list" where
  \<comment> \<open>\<open>self.test_taxonomy\<close> is \<open>TEST_TAXONOMY\<close>\<close>
  "analyze_text_for_tests text ts = analyze_text_for_tests_in TEST_TAXONOMY text ts"

section \<open>The transcript\<close>

text \<open>
  A transcript is the output of the transcription service: a list of items and a list
  of speaker segments. The source reads both with \<open>.get(..., [])\<close>, so an absent key is the
  empty list. A time field is read with \<open>float(d.get('start_time', 0))\<close>: an absent key
  gives \<open>0\<close>, a value that parses gives its number and any other value raises
  \<open>ValueError\<close>.
\<close>

datatype error = ValueError | IndexError | OracleError

datatype time_field = Absent | Parses rat | Malformed

fun to_float :: "time_field \<Rightarrow> error + rat" where
  "to_float Absent = Inr 0"
| "to_float (Parses r) = Inr r"
| "to_float Malformed = Inl ValueError"

record alternative =
  content :: "string option"

record item =
  item_type :: "string option"
  item_start_time :: time_field
  alternatives :: "alternative list option"

record segment =
  speaker_label :: "string option"
  start_time :: time_field
  end_time :: time_field

record transcript =
  items :: "item list"
  segments :: "segment list"

definition item_content :: "item \<Rightarrow> error + string" where
  \<comment> \<open>\<open>item.get('alternatives', [{}])[0].get('content', '')\<close>\<close>
  "item_content it =
     (case alternatives it of
        None \<Rightarrow> Inr []
      | Some [] \<Rightarrow> Inl IndexError
      | Some (a # _) \<Rightarrow> Inr (case content a of None \<Rightarrow> [] | Some c \<Rightarrow> c))"

fun collect_words :: "rat \<Rightarrow> rat \<Rightarrow> item list \<Rightarrow> error + string list" where
  \<comment> \<open>the loop of \<open>_get_segment_text\<close> over the items\<close>
  "collect_words segment_start segment_end [] = Inr []"
| "collect_words segment_start segment_end (it # its) =
     (if item_type it = Some ''pronunciation''
      then (case to_float (item_start_time it) of
              Inl e \<Rightarrow> Inl e
            | Inr item_start \<Rightarrow>
                if segment_start \<le> item_start \<and> item_start \<le> segment_end
                then (case item_content it of
                        Inl e \<Rightarrow> Inl e
                      | Inr c \<Rightarrow>
                          (case collect_words segment_start segment_end its of
                             Inl e \<Rightarrow> Inl e
                           | Inr rest \<Rightarrow> Inr (c # rest)))
                else collect_words segment_start segment_end its)
      else collect_words segment_start segment_end its)"

definition get_segment_text :: "segment \<Rightarrow> item list \<Rightarrow> error + string" where
  "get_segment_text seg its =
     (case to_float (start_time seg) of
        Inl e \<Rightarrow> Inl e
      | Inr segment_start \<Rightarrow>
          (case to_float (end_time seg) of
             Inl e \<Rightarrow> Inl e
           | Inr segment_end \<Rightarrow>
               (case collect_words segment_start segment_end its of
                  Inl e \<Rightarrow> Inl e
                | Inr words \<Rightarrow> Inr (join_sp words))))"

section \<open>Detection of declared tests\<close>

record declared_test = test_candidate +
  speaker :: string
  transcript_text :: string

definition tag_test :: "string \<Rightarrow> string \<Rightarrow> test_candidate \<Rightarrow> declared_test" where
  \<comment> \<open>\<open>test['speaker'] = speaker; test['transcript_text'] = segment_text\<close>\<close>
  "tag_test spk segment_text test =
     \<lparr>label = label test, timestamp = timestamp test, confidence = confidence test,
      matched_text = matched_text test, speaker = spk, transcript_text = segment_text\<rparr>"

definition detect_segment :: "item list \<Rightarrow> segment \<Rightarrow> error + declared_test list" where
  \<comment> \<open>the body of the loop over the segments\<close>
  "detect_segment its seg =
     (let spk = (case speaker_label seg of None \<Rightarrow> ''unknown'' | Some l \<Rightarrow> l)
      in case to_float (start_time seg) of
           Inl e \<Rightarrow> Inl e
         | Inr start \<Rightarrow>
             (case to_float (end_time seg) of
                Inl e \<Rightarrow> Inl e
              | Inr _ \<Rightarrow>
                  (case get_segment_text seg its of
                     Inl e \<Rightarrow> Inl e
                   | Inr segment_text \<Rightarrow>
                       Inr (map (tag_test spk segment_text)
                              (analyze_text_for_tests segment_text start)))))"

fun detect_segments :: "item list \<Rightarrow> segment list \<Rightarrow> error + declared_test list" where
  \<comment> \<open>the loop: an exception in any segment leaves the loop\<close>
  "detect_segments its [] = Inr []"
| "detect_segments its (seg # segs) =
     (case detect_segment its seg of
        Inl e \<Rightarrow> Inl e
      | Inr found \<Rightarrow>
          (case detect_segments its segs of
             Inl e \<Rightarrow> Inl e
           | Inr rest \<Rightarrow> Inr (found @ rest)))"

definition detect_declared_tests :: "transcript \<Rightarrow> declared_test list" where
  \<comment> \<open>\<open>try: ... return declared_tests / except Exception: return []\<close>\<close>
  "detect_declared_tests t =
     (case detect_segments (items t) (segments t) of
        Inl e \<Rightarrow> []
      | Inr declared_tests \<Rightarrow> declared_tests)"

section \<open>Demeanor analysis\<close>

record demeanor_flag =
  flag_type :: string
  flag_timestamp :: rat
  transcript_excerpt :: string
  severity :: string
  description :: string
  sentiment_scores :: "(string \<times> rat) list option"

definition NEGATIVE_TONE_INDICATORS :: "string list" where
  "NEGATIVE_TONE_INDICATORS = [''that's ridiculous'', ''you're lying'', ''i don't believe'',
     ''that's impossible'', ''come on'', ''really?'', ''seriously?'', ''you're exaggerating'',
     ''that doesn't make sense'']"

definition INTERRUPTION_PATTERNS :: "regex list" where
  "INTERRUPTION_PATTERNS = [
     seqs [lit ''stop'', ws, alts [lit ''talking'', lit ''speaking'']],
     seqs [lit ''let'', ws, lit ''me'', ws, alts [lit ''speak'', lit ''talk'']],
     seqs [lit ''don't'', ws, alts [lit ''interrupt'', lit ''talk'']],
     seqs [lit ''be'', ws, lit ''quiet''],
     seqs [lit ''shut'', ws, lit ''up'']]"

definition DISMISSIVE_PATTERNS :: "regex list" where
  "DISMISSIVE_PATTERNS = [
     seqs [alts [lit ''doesn't'', seqs [lit ''does'', ws, lit ''not'']], ws, lit ''matter''],
     seqs [lit ''not'', ws, lit ''important''],
     seqs [alts [lit ''don't'', seqs [lit ''do'', ws, lit ''not'']], ws, lit ''care'', ws,
       lit ''about''],
     seqs [lit ''that's'', ws, alts [lit ''irrelevant'', seqs [lit ''not'', ws, lit ''relevant'']]]]"

function show_nat :: "nat \<Rightarrow> string" where
  \<comment> \<open>the decimal digits of a number, as an f-string prints it\<close>
  "show_nat n =
     (if n < 10 then [char_of (48 + n)] else show_nat (n div 10) @ [char_of (48 + n mod 10)])"
  by pat_completeness auto
termination
  by (relation "measure id") auto

definition round_half_even :: "rat \<Rightarrow> int" where
  "round_half_even x =
     (let f = \<lfloor>x\<rfloor>; d = x - of_int f
      in if d < 1 / 2 then f else if d > 1 / 2 then f + 1 else if even f then f else f + 1)"

definition fmt_2f :: "rat \<Rightarrow> string" where
  \<comment> \<open>\<open>f'{x:.2f}'\<close>\<close>
  "fmt_2f x =
     (let n = nat (round_half_even (\<bar>x\<bar> * 100))
      in (if x < 0 then ''-'' else []) @ show_nat (n div 100) @ ''.'' @
         show_nat (n mod 100 div 10) @ show_nat (n mod 10))"

definition analyze_tone :: "string \<Rightarrow> rat \<Rightarrow> demeanor_flag list" where
  "analyze_tone text ts =
     (let text_lower = lower text in
      concat (map (\<lambda>indicator.
          if str_in indicator text_lower
          then [\<lparr>flag_type = ''negative_tone'', flag_timestamp = ts,
                  transcript_excerpt = take 200 text, severity = ''high'',
                  description = ''Negative language detected: '' @ [CHR 0x22] @ indicator
                    @ [CHR 0x22],
                  sentiment_scores = None\<rparr>]
          else []) NEGATIVE_TONE_INDICATORS)
      @ concat (map (\<lambda>pattern.
          if re_search False pattern text_lower
          then [\<lparr>flag_type = ''dismissive'', flag_timestamp = ts,
                  transcript_excerpt = take 200 text, severity = ''medium'',
                  description = ''Dismissive language detected'',
                  sentiment_scores = None\<rparr>]
          else []) DISMISSIVE_PATTERNS)
      @ concat (map (\<lambda>pattern.
          if re_search False pattern text_lower
          then [\<lparr>flag_type = ''aggressive'', flag_timestamp = ts,
                  transcript_excerpt = take 200 text, severity = ''high'',
                  description = ''Aggressive or controlling language detected'',
                  sentiment_scores = None\<rparr>]
          else []) INTERRUPTION_PATTERNS))"

text \<open>
  The sentiment service is the external service behind \<open>detect_sentiment\<close>: it is a
  parameter of the model, and either fails or returns a response.
\<close>

record sentiment_response =
  Sentiment :: "string option"
  SentimentScore :: "(string \<times> rat) list option"

type_synonym sentiment_oracle = "string \<Rightarrow> error + sentiment_response"

definition analyze_sentiment_comprehend ::
  "sentiment_oracle \<Rightarrow> string \<Rightarrow> segment list \<Rightarrow> demeanor_flag list" where
  \<comment> \<open>every exception inside is caught and leaves \<open>flags\<close> empty\<close>
  "analyze_sentiment_comprehend comprehend text segs =
     (let text_sample = take 5000 text in
      case comprehend text_sample of
        Inl e \<Rightarrow> []
      | Inr response \<Rightarrow>
          (let sentiment_score = (case SentimentScore response of None \<Rightarrow> [] | Some sc \<Rightarrow> sc);
               negative = (case map_of sentiment_score ''Negative'' of None \<Rightarrow> 0 | Some v \<Rightarrow> v)
           in if Sentiment response = Some ''NEGATIVE'' \<and> negative > 6 / 10
              then (case (case segs of [] \<Rightarrow> Inr 0 | s # _ \<Rightarrow> to_float (start_time s)) of
                      Inl e \<Rightarrow> []
                    | Inr ts \<Rightarrow>
                        [\<lparr>flag_type = ''negative_sentiment'', flag_timestamp = ts,
                          transcript_excerpt = take 200 text_sample, severity = ''medium'',
                          description = ''Overall negative sentiment detected (score: ''
                            @ fmt_2f negative @ '')'',
                          sentiment_scores = Some sentiment_score\<rparr>])
              else []))"

definition demeanor_segment ::
  "string \<Rightarrow> item list \<Rightarrow> nat \<times> string option \<Rightarrow> segment
     \<Rightarrow> error + (nat \<times> string option) \<times> demeanor_flag list" where
  \<comment> \<open>the body of the loop over the segments: from \<open>(consecutive_count, last_speaker)\<close>
      to their new values and the flags appended\<close>
  "demeanor_segment examiner its st seg =
     (let consecutive_count = fst st; last_speaker = snd st; spk = speaker_label seg
      in case to_float (start_time seg) of
           Inl e \<Rightarrow> Inl e
         | Inr start \<Rightarrow>
             (case get_segment_text seg its of
                Inl e \<Rightarrow> Inl e
              | Inr segment_text \<Rightarrow>
                  if spk = Some examiner
                  then (if last_speaker = Some examiner
                        then Inr ((consecutive_count + 1, spk),
                               (if consecutive_count + 1 \<ge> 2
                                then [\<lparr>flag_type = ''interruption'', flag_timestamp = start,
                                        transcript_excerpt = take 200 segment_text,
                                        severity = ''medium'',
                                        description = ''Examiner spoke ''
                                          @ show_nat (consecutive_count + 1 + 1)
                                          @ '' times consecutively'',
                                        sentiment_scores = None\<rparr>]
                                else [])
                               @ analyze_tone segment_text start)
                        else Inr ((0, spk), analyze_tone segment_text start))
                  else Inr ((consecutive_count, spk), [])))"

fun demeanor_segments ::
  "string \<Rightarrow> item list \<Rightarrow> nat \<times> string option \<Rightarrow> segment list \<Rightarrow> error + demeanor_flag list" where
  "demeanor_segments examiner its st [] = Inr []"
| "demeanor_segments examiner its st (seg # segs) =
     (case demeanor_segment examiner its st seg of
        Inl e \<Rightarrow> Inl e
      | Inr (st', flags) \<Rightarrow>
          (case demeanor_segments examiner its st' segs of
             Inl e \<Rightarrow> Inl e
           | Inr rest \<Rightarrow> Inr (flags @ rest)))"

fun segment_texts :: "item list \<Rightarrow> segment list \<Rightarrow> error + string list" where
  \<comment> \<open>\<open>[self._get_segment_text(s, items) for s in ...]\<close>\<close>
  "segment_texts its [] = Inr []"
| "segment_texts its (seg # segs) =
     (case get_segment_text seg its of
        Inl e \<Rightarrow> Inl e
      | Inr text \<Rightarrow>
          (case segment_texts its segs of Inl e \<Rightarrow> Inl e | Inr rest \<Rightarrow> Inr (text # rest)))"

definition analyze_examiner_demeanor ::
  "sentiment_oracle \<Rightarrow> transcript \<Rightarrow> string \<Rightarrow> demeanor_flag list" where
  \<comment> \<open>\<open>try: ... return demeanor_flags / except Exception: return []\<close>\<close>
  "analyze_examiner_demeanor comprehend t examiner_speaker_label =
     (let examiner_segments =
            filter (\<lambda>s. speaker_label s = Some examiner_speaker_label) (segments t)
      in case demeanor_segments examiner_speaker_label (items t) (0, None) (segments t) of
           Inl e \<Rightarrow> []
         | Inr demeanor_flags \<Rightarrow>
             (case segment_texts (items t) (take 10 examiner_segments) of
                Inl e \<Rightarrow> []
              | Inr texts \<Rightarrow>
                  (let examiner_text = join_sp texts
                   in if examiner_text \<noteq> []
                      then demeanor_flags
                        @ analyze_sentiment_comprehend comprehend examiner_text
                            examiner_segments
                      else demeanor_flags)))"

section \<open>The processing entry point\<close>

record analysis_result =
  session_id :: string
  declared_tests :: "declared_test list"
  demeanor_flags :: "demeanor_flag list"
  processing_timestamp :: int
  status :: string

definition process_transcript_for_cme_analysis ::
  "sentiment_oracle \<Rightarrow> int \<Rightarrow> string \<Rightarrow> transcript \<Rightarrow> analysis_result" where
  \<comment> \<open>the sentiment service and the clock (\<open>int(time.time())\<close>) are the two things the result
      depends on besides its arguments; the examiner label is the default \<open>'speaker_0'\<close>\<close>
  "process_transcript_for_cme_analysis comprehend now sid transcript_data =
     \<lparr>session_id = sid,
      declared_tests = detect_declared_tests transcript_data,
      demeanor_flags = analyze_examiner_demeanor comprehend transcript_data ''speaker_0'',
      processing_timestamp = now,
      status = ''completed''\<rparr>"

section \<open>Reconciliation in the report\<close>

record declared_step =
  declared_step_id :: string

record observed_action =
  motion_present :: "string option"
  pose_match :: "string option"

definition stat_motion :: "(string \<rightharpoonup> observed_action) \<Rightarrow> declared_step \<Rightarrow> string option" where
  \<comment> \<open>\<open>step_actions.get(step['declared_step_id'], {}).get('motion_present')\<close>\<close>
  "stat_motion step_actions step =
     (case step_actions (declared_step_id step) of None \<Rightarrow> None | Some a \<Rightarrow> motion_present a)"

definition tests_performed :: "(string \<rightharpoonup> observed_action) \<Rightarrow> declared_step list \<Rightarrow> nat" where
  "tests_performed step_actions declared_steps =
     length (filter (\<lambda>step. stat_motion step_actions step = Some ''performed'') declared_steps)"

definition tests_not_performed :: "(string \<rightharpoonup> observed_action) \<Rightarrow> declared_step list \<Rightarrow> nat" where
  "tests_not_performed step_actions declared_steps =
     length (filter (\<lambda>step. stat_motion step_actions step = Some ''not_observed'') declared_steps)"

definition timeline_motion :: "(string \<rightharpoonup> observed_action) \<Rightarrow> declared_step \<Rightarrow> string" where
  \<comment> \<open>\<open>action = step_actions.get(step_id, {}); action.get('motion_present', 'unknown')\<close>\<close>
  "timeline_motion step_actions step =
     (case step_actions (declared_step_id step) of
        None \<Rightarrow> ''unknown''
      | Some a \<Rightarrow> (case motion_present a of None \<Rightarrow> ''unknown'' | Some m \<Rightarrow> m))"

definition is_discrepancy :: "(string \<rightharpoonup> observed_action) \<Rightarrow> declared_step \<Rightarrow> bool" where
  "is_discrepancy step_actions step =
     (timeline_motion step_actions step \<in> set [''not_observed'', ''brief''])"

definition discrepancy_class :: "(string \<rightharpoonup> observed_action) \<Rightarrow> declared_step \<Rightarrow> string" where
  "discrepancy_class step_actions step =
     (if is_discrepancy step_actions step then ''discrepancy'' else [])"

section \<open>Properties of the classifier\<close>

lemma lexical_nonneg: "0 \<le> 3 / 10 * min (rat_of_nat a / rat_of_nat b) 1"
  by simp

lemma score_nonneg: "0 \<le> score cfg t"
  by (simp add: score_def Let_def)

lemma score_pattern: "pattern_matches cfg t > 0 \<Longrightarrow> score cfg t \<ge> 7 / 10"
  by (simp add: score_def Let_def)

lemma score_flat:
  "score cfg t =
     (if keyword_matches cfg t > 0
      then 3 / 10 * min (of_nat (keyword_matches cfg t) / of_nat (length (cfg_keywords cfg))) 1
      else 0) + 7 / 10 + (if has_declaration t then 2 / 10 else 0)"
  if "pattern_matches cfg t > 0"
proof -
  have "0 < 3 / 10 * min (rat_of_nat a / rat_of_nat b) 1 + 7 / 10" for a b
    using lexical_nonneg[of a b] by linarith
  then show ?thesis using that by (simp add: score_def Let_def)
qed

lemma score_zero:
  "keyword_matches cfg t = 0 \<Longrightarrow> pattern_matches cfg t = 0 \<Longrightarrow> score cfg t = 0"
  by (simp add: score_def Let_def)

lemma pattern_matches_pos:
  "pattern_matches cfg t > 0 \<longleftrightarrow> (\<exists>p \<in> set (cfg_patterns cfg). re_search True p t)"
  by (auto simp: pattern_matches_def filter_empty_conv)

lemma pattern_matches_zero:
  "pattern_matches cfg t = 0 \<longleftrightarrow> (\<forall>p \<in> set (cfg_patterns cfg). \<not> re_search True p t)"
  by (auto simp: pattern_matches_def filter_empty_conv)

lemma keyword_matches_zero:
  "keyword_matches cfg t = 0 \<longleftrightarrow> (\<forall>kw \<in> set (cfg_keywords cfg). \<not> str_in kw t)"
  by (auto simp: keyword_matches_def filter_empty_conv)

lemma in_analyze_iff:
  "ev \<in> set (analyze_text_for_tests_in tax text ts) \<longleftrightarrow>
   (\<exists>entry \<in> set tax. ev \<in> set (classify_category text ts entry))"
  by (auto simp: analyze_text_for_tests_in_def)

lemma in_classify_iff:
  "ev \<in> set (classify_category text ts entry) \<longleftrightarrow>
   score (snd entry) (lower text) \<ge> 1 / 2 \<and>
   ev = \<lparr>label = fst entry, timestamp = ts, confidence = min (score (snd entry) (lower text)) 1,
         matched_text = take 200 text\<rparr>"
  by (auto simp: classify_category_def Let_def)

lemma classify_silent:
  "keyword_matches cfg (lower text) = 0 \<Longrightarrow> pattern_matches cfg (lower text) = 0 \<Longrightarrow>
   classify_category text ts (name, cfg) = []"
  by (simp add: classify_category_def score_zero)

lemma taxonomy_distinct: "distinct (map fst TEST_TAXONOMY)"
  by (simp add: TEST_TAXONOMY_def)

subsection \<open>Evaluation on the scenario of the specification\<close>

lemma lower_char_fix:
  "lower_char CHR ''a'' = CHR ''a''" "lower_char CHR ''b'' = CHR ''b''" "lower_char CHR ''c'' = CHR ''c''"
  "lower_char CHR ''d'' = CHR ''d''" "lower_char CHR ''e'' = CHR ''e''" "lower_char CHR ''f'' = CHR ''f''"
  "lower_char CHR ''g'' = CHR ''g''" "lower_char CHR ''h'' = CHR ''h''" "lower_char CHR ''i'' = CHR ''i''"
  "lower_char CHR ''j'' = CHR ''j''" "lower_char CHR ''k'' = CHR ''k''" "lower_char CHR ''l'' = CHR ''l''"
  "lower_char CHR ''m'' = CHR ''m''" "lower_char CHR ''n'' = CHR ''n''" "lower_char CHR ''o'' = CHR ''o''"
  "lower_char CHR ''p'' = CHR ''p''" "lower_char CHR ''q'' = CHR ''q''" "lower_char CHR ''r'' = CHR ''r''"
  "lower_char CHR ''s'' = CHR ''s''" "lower_char CHR ''t'' = CHR ''t''" "lower_char CHR ''u'' = CHR ''u''"
  "lower_char CHR ''v'' = CHR ''v''" "lower_char CHR ''w'' = CHR ''w''" "lower_char CHR ''x'' = CHR ''x''"
  "lower_char CHR ''y'' = CHR ''y''" "lower_char CHR ''z'' = CHR ''z''" "lower_char CHR '' '' = CHR '' ''"
  "lower_char CHR '','' = CHR '',''" "lower_char CHR ''-'' = CHR ''-''" "lower_char CHR 0x27 = CHR 0x27"
  by (simp_all add: lower_char_def)
lemma lower_char_N: "lower_char CHR ''N'' = CHR ''n''" by code_simp
lemma is_space_fix:
  "is_space CHR '' ''" "\<not> is_space CHR '',''" "\<not> is_space CHR 0x27" "\<not> is_space CHR ''-''"
  "\<not> is_space CHR ''a''" "\<not> is_space CHR ''b''" "\<not> is_space CHR ''c''"
  "\<not> is_space CHR ''d''" "\<not> is_space CHR ''e''" "\<not> is_space CHR ''f''"
  "\<not> is_space CHR ''g''" "\<not> is_space CHR ''h''" "\<not> is_space CHR ''i''"
  "\<not> is_space CHR ''j''" "\<not> is_space CHR ''k''" "\<not> is_space CHR ''l''"
  "\<not> is_space CHR ''m''" "\<not> is_space CHR ''n''" "\<not> is_space CHR ''o''"
  "\<not> is_space CHR ''p''" "\<not> is_space CHR ''q''" "\<not> is_space CHR ''r''"
  "\<not> is_space CHR ''s''" "\<not> is_space CHR ''t''" "\<not> is_space CHR ''u''"
  "\<not> is_space CHR ''v''" "\<not> is_space CHR ''w''" "\<not> is_space CHR ''x''"
  "\<not> is_space CHR ''y''" "\<not> is_space CHR ''z''"
  by (simp_all add: is_space_def)
lemmas regex_eval = lower_char_fix is_space_fix same_char_def ws_def Plus_def Opt_def seq_def alt_def


lemma scenario_lower:
  "lower ''Now let's check your straight leg raise, please lie back'' =
   ''now let's check your straight leg raise, please lie back''"
  by (simp add: lower_def lower_char_fix lower_char_N)

lemma scenario_declaration:
  "has_declaration ''now let's check your straight leg raise, please lie back''"
  by (simp add: has_declaration_def declaration_phrases_def)

lemma scenario_spine_keywords:
  "keyword_matches spine_config
     ''now let's check your straight leg raise, please lie back'' = 1"
  by (simp add: keyword_matches_def spine_config_def)

lemma scenario_spine_patterns:
  "pattern_matches spine_config
     ''now let's check your straight leg raise, please lie back'' = 0"
  by (simp add: pattern_matches_def spine_config_def regex_eval)

lemma scenario_lumbar_rom_keywords:
  "keyword_matches lumbar_rom_config
     ''now let's check your straight leg raise, please lie back'' = 0"
  by (simp add: keyword_matches_def lumbar_rom_config_def)

lemma scenario_lumbar_rom_patterns:
  "pattern_matches lumbar_rom_config
     ''now let's check your straight leg raise, please lie back'' = 0"
  by (simp add: pattern_matches_def lumbar_rom_config_def regex_eval)

lemma scenario_straight_leg_raise_keywords:
  "keyword_matches straight_leg_raise_config
     ''now let's check your straight leg raise, please lie back'' = 2"
  by (simp add: keyword_matches_def straight_leg_raise_config_def)

lemma scenario_straight_leg_raise_patterns:
  "pattern_matches straight_leg_raise_config
     ''now let's check your straight leg raise, please lie back'' = 1"
  by (simp add: pattern_matches_def straight_leg_raise_config_def regex_eval)

lemma scenario_waddells_signs_keywords:
  "keyword_matches waddells_signs_config
     ''now let's check your straight leg raise, please lie back'' = 0"
  by (simp add: keyword_matches_def waddells_signs_config_def)

lemma scenario_waddells_signs_patterns:
  "pattern_matches waddells_signs_config
     ''now let's check your straight leg raise, please lie back'' = 0"
  by (simp add: pattern_matches_def waddells_signs_config_def regex_eval)

lemma scenario_cervical_rom_keywords:
  "keyword_matches cervical_rom_config
     ''now let's check your straight leg raise, please lie back'' = 0"
  by (simp add: keyword_matches_def cervical_rom_config_def)

lemma scenario_cervical_rom_patterns:
  "pattern_matches cervical_rom_config
     ''now let's check your straight leg raise, please lie back'' = 0"
  by (simp add: pattern_matches_def cervical_rom_config_def regex_eval)

lemma scenario_gait_keywords:
  "keyword_matches gait_config
     ''now let's check your straight leg raise, please lie back'' = 0"
  by (simp add: keyword_matches_def gait_config_def)

lemma scenario_gait_patterns:
  "pattern_matches gait_config
     ''now let's check your straight leg raise, please lie back'' = 0"
  by (simp add: pattern_matches_def gait_config_def regex_eval)

lemma scenario_neurological_keywords:
  "keyword_matches neurological_config
     ''now let's check your straight leg raise, please lie back'' = 0"
  by (simp add: keyword_matches_def neurological_config_def)

lemma scenario_neurological_patterns:
  "pattern_matches neurological_config
     ''now let's check your straight leg raise, please lie back'' = 0"
  by (simp add: pattern_matches_def neurological_config_def regex_eval)

lemma scenario_palpation_keywords:
  "keyword_matches palpation_config
     ''now let's check your straight leg raise, please lie back'' = 0"
  by (simp add: keyword_matches_def palpation_config_def)

lemma scenario_palpation_patterns:
  "pattern_matches palpation_config
     ''now let's check your straight leg raise, please lie back'' = 0"
  by (simp add: pattern_matches_def palpation_config_def regex_eval)

lemma scenario_orthopedic_keywords:
  "keyword_matches orthopedic_config
     ''now let's check your straight leg raise, please lie back'' = 0"
  by (simp add: keyword_matches_def orthopedic_config_def)

lemma scenario_orthopedic_patterns:
  "pattern_matches orthopedic_config
     ''now let's check your straight leg raise, please lie back'' = 0"
  by (simp add: pattern_matches_def orthopedic_config_def regex_eval)

lemma scenario_cognitive_keywords:
  "keyword_matches cognitive_config
     ''now let's check your straight leg raise, please lie back'' = 0"
  by (simp add: keyword_matches_def cognitive_config_def)

lemma scenario_cognitive_patterns:
  "pattern_matches cognitive_config
     ''now let's check your straight leg raise, please lie back'' = 0"
  by (simp add: pattern_matches_def cognitive_config_def regex_eval)

lemmas scenario_counts =
  scenario_spine_keywords scenario_spine_patterns
  scenario_lumbar_rom_keywords scenario_lumbar_rom_patterns
  scenario_straight_leg_raise_keywords scenario_straight_leg_raise_patterns
  scenario_waddells_signs_keywords scenario_waddells_signs_patterns
  scenario_cervical_rom_keywords scenario_cervical_rom_patterns
  scenario_gait_keywords scenario_gait_patterns
  scenario_neurological_keywords scenario_neurological_patterns
  scenario_palpation_keywords scenario_palpation_patterns
  scenario_orthopedic_keywords scenario_orthopedic_patterns
  scenario_cognitive_keywords scenario_cognitive_patterns

lemma scenario_spine_score:
  "score spine_config ''now let's check your straight leg raise, please lie back'' = 13 / 50"
proof -
  have "length (cfg_keywords spine_config) = 5" by (simp add: spine_config_def)
  then show ?thesis
    by (simp add: score_def scenario_spine_keywords scenario_spine_patterns scenario_declaration)
qed

lemma scenario_straight_leg_raise_score:
  "score straight_leg_raise_config ''now let's check your straight leg raise, please lie back'' = 51 / 50"
proof -
  have "length (cfg_keywords straight_leg_raise_config) = 5"
    by (simp add: straight_leg_raise_config_def)
  then show ?thesis
    by (simp add: score_def scenario_straight_leg_raise_keywords
        scenario_straight_leg_raise_patterns scenario_declaration)
qed

lemma scenario_result:
  "analyze_text_for_tests ''Now let's check your straight leg raise, please lie back'' 42 =
     [\<lparr>label = ''straight_leg_raise'', timestamp = 42, confidence = 1,
       matched_text = ''Now let's check your straight leg raise, please lie back''\<rparr>]"
proof -
  have spine: "classify_category ''Now let's check your straight leg raise, please lie back'' 42
      (''spine'', spine_config) = []"
    by (simp add: classify_category_def scenario_lower scenario_spine_score)
  have slr: "classify_category ''Now let's check your straight leg raise, please lie back'' 42
      (''straight_leg_raise'', straight_leg_raise_config) =
     [\<lparr>label = ''straight_leg_raise'', timestamp = 42, confidence = 1,
       matched_text = ''Now let's check your straight leg raise, please lie back''\<rparr>]"
    by (simp add: classify_category_def scenario_lower scenario_straight_leg_raise_score)
  show ?thesis
    by (simp add: analyze_text_for_tests_def analyze_text_for_tests_in_def TEST_TAXONOMY_def
        spine slr classify_silent scenario_lower scenario_counts)
qed

section \<open>Claims about the classifier\<close>

text \<open>
  Claim C2. For every text, timestamp and category of the taxonomy: when at least one
  pattern rule of the category is found in the lowercased text (searched ignoring case),
  the classifier emits a candidate for the category, stamped with the timestamp. The
  structural score is a flat \<open>0.7\<close>, added once whatever the number of patterns found,
  so the score is the lexical part plus \<open>0.7\<close> plus the discourse bonus, and the stored
  confidence is at least \<open>0.7\<close>, above the threshold \<open>0.5\<close>.
\<close>

theorem pattern_match_emits_candidate:
  assumes "(name, cfg) \<in> set TEST_TAXONOMY"
    and "\<exists>p \<in> set (cfg_patterns cfg). re_search True p (lower text)"
  shows "(\<exists>ev \<in> set (analyze_text_for_tests text ts).
            label ev = name \<and> timestamp ev = ts \<and> confidence ev \<ge> 7 / 10) \<and>
         score cfg (lower text) =
           (if keyword_matches cfg (lower text) > 0
            then 3 / 10 * min (of_nat (keyword_matches cfg (lower text))
                                / of_nat (length (cfg_keywords cfg))) 1
            else 0) + 7 / 10 + (if has_declaration (lower text) then 2 / 10 else 0)"
proof -
  from assms(2) have pm: "pattern_matches cfg (lower text) > 0"
    by (simp add: pattern_matches_pos)
  then have sc: "score cfg (lower text) \<ge> 7 / 10" by (rule score_pattern)
  let ?ev = "\<lparr>label = name, timestamp = ts, confidence = min (score cfg (lower text)) 1,
         matched_text = take 200 text\<rparr>"
  from sc have "?ev \<in> set (classify_category text ts (name, cfg))"
    by (simp add: in_classify_iff)
  with assms(1) have "?ev \<in> set (analyze_text_for_tests text ts)"
    unfolding analyze_text_for_tests_def in_analyze_iff by blast
  moreover from sc have "confidence ?ev \<ge> 7 / 10" by simp
  ultimately have "\<exists>ev \<in> set (analyze_text_for_tests text ts).
            label ev = name \<and> timestamp ev = ts \<and> confidence ev \<ge> 7 / 10"
    by (intro bexI[of _ ?ev]) simp_all
  with score_flat[OF pm] show ?thesis by blast
qed

theorem pattern_match_emits_candidate_witness:
  "(''straight_leg_raise'', straight_leg_raise_config) \<in> set TEST_TAXONOMY \<and>
   (\<exists>p \<in> set (cfg_patterns straight_leg_raise_config).
      re_search True p (lower ''Now let's check your straight leg raise, please lie back'')) \<and>
   (\<exists>ev \<in> set (analyze_text_for_tests
                  ''Now let's check your straight leg raise, please lie back'' 42).
      label ev = ''straight_leg_raise'' \<and> timestamp ev = 42 \<and> confidence ev \<ge> 7 / 10)"
proof -
  have h1: "(''straight_leg_raise'', straight_leg_raise_config) \<in> set TEST_TAXONOMY"
    by (simp add: TEST_TAXONOMY_def)
  have "pattern_matches straight_leg_raise_config
      (lower ''Now let's check your straight leg raise, please lie back'') > 0"
    by (simp add: scenario_lower scenario_straight_leg_raise_patterns)
  then have h2: "\<exists>p \<in> set (cfg_patterns straight_leg_raise_config).
      re_search True p (lower ''Now let's check your straight leg raise, please lie back'')"
    by (simp only: pattern_matches_pos)
  from pattern_match_emits_candidate[OF h1 h2, of 42] h1 h2 show ?thesis by blast
qed

text \<open>
  Claim C3. For every text and category of the taxonomy: when the lowercased text
  contains none of the category's keywords and none of its pattern rules is found in it,
  the score of the category is \<open>0\<close>, whatever declaration phrases the text contains (the
  bonus is added only to a score already above \<open>0\<close>), and the classifier emits no
  candidate for the category.
\<close>

theorem no_signal_no_candidate:
  assumes "(name, cfg) \<in> set TEST_TAXONOMY"
    and "\<forall>kw \<in> set (cfg_keywords cfg). \<not> str_in kw (lower text)"
    and "\<forall>p \<in> set (cfg_patterns cfg). \<not> re_search True p (lower text)"
  shows "score cfg (lower text) = 0 \<and>
         (\<forall>ev \<in> set (analyze_text_for_tests text ts). label ev \<noteq> name)"
proof -
  have z: "score cfg (lower text) = 0"
    using assms(2,3) by (simp add: score_zero keyword_matches_zero pattern_matches_zero)
  have "label ev \<noteq> name" if "ev \<in> set (analyze_text_for_tests text ts)" for ev
  proof
    assume eq: "label ev = name"
    from that obtain n c where e: "(n, c) \<in> set TEST_TAXONOMY"
      and c: "ev \<in> set (classify_category text ts (n, c))"
      unfolding analyze_text_for_tests_def in_analyze_iff by auto
    from c have s: "score c (lower text) \<ge> 1 / 2" and l: "label ev = n"
      by (simp_all add: in_classify_iff)
    from e l eq have "(name, c) \<in> set TEST_TAXONOMY" by simp
    with assms(1) have "c = cfg"
      using eq_key_imp_eq_value[OF taxonomy_distinct] by blast
    with s z show False by simp
  qed
  with z show ?thesis by blast
qed

theorem no_signal_no_candidate_witness:
  "(''gait'', gait_config) \<in> set TEST_TAXONOMY \<and>
   has_declaration (lower ''Now let's check your straight leg raise, please lie back'') \<and>
   list_all (\<lambda>kw. \<not> str_in kw
       (lower ''Now let's check your straight leg raise, please lie back''))
     (cfg_keywords gait_config) \<and>
   list_all (\<lambda>p. \<not> re_search True p
       (lower ''Now let's check your straight leg raise, please lie back''))
     (cfg_patterns gait_config) \<and>
   score gait_config (lower ''Now let's check your straight leg raise, please lie back'') = 0 \<and>
   ''gait'' \<notin> set (map label (analyze_text_for_tests
       ''Now let's check your straight leg raise, please lie back'' 42))"
proof -
  have h1: "(''gait'', gait_config) \<in> set TEST_TAXONOMY"
    by (simp add: TEST_TAXONOMY_def)
  have "keyword_matches gait_config
      (lower ''Now let's check your straight leg raise, please lie back'') = 0"
    by (simp add: scenario_lower scenario_gait_keywords)
  then have h2: "\<forall>kw \<in> set (cfg_keywords gait_config).
      \<not> str_in kw (lower ''Now let's check your straight leg raise, please lie back'')"
    by (simp only: keyword_matches_zero)
  have "pattern_matches gait_config
      (lower ''Now let's check your straight leg raise, please lie back'') = 0"
    by (simp add: scenario_lower scenario_gait_patterns)
  then have h3: "\<forall>p \<in> set (cfg_patterns gait_config).
      \<not> re_search True p (lower ''Now let's check your straight leg raise, please lie back'')"
    by (simp only: pattern_matches_zero)
  have h4: "has_declaration (lower ''Now let's check your straight leg raise, please lie back'')"
    by (simp add: scenario_lower scenario_declaration)
  from no_signal_no_candidate[OF h1 h2 h3, of 42] h1 h2 h3 h4 show ?thesis
    unfolding list_all_iff by auto
qed

text \<open>
  Claim C4. Every candidate the classifier emits stores a confidence in \<open>[0, 1]\<close>: it is
  the score of its category clamped to \<open>1\<close>, a score that reached the threshold and may
  exceed \<open>1\<close> (lexical \<open>0.3\<close> at most, structural \<open>0.7\<close>, bonus \<open>0.2\<close>). Its matched text
  is the first 200 characters of the original text, not of the lowercased one.
\<close>

theorem confidence_clamped_text_truncated:
  assumes "ev \<in> set (analyze_text_for_tests text ts)"
  shows "0 \<le> confidence ev \<and> confidence ev \<le> 1 \<and> matched_text ev = take 200 text \<and>
         (\<exists>cfg. (label ev, cfg) \<in> set TEST_TAXONOMY \<and> score cfg (lower text) \<ge> 1 / 2 \<and>
                 confidence ev = min (score cfg (lower text)) 1)"
proof -
  from assms obtain n c where e: "(n, c) \<in> set TEST_TAXONOMY"
    and "ev \<in> set (classify_category text ts (n, c))"
    unfolding analyze_text_for_tests_def in_analyze_iff by auto
  then have s: "score c (lower text) \<ge> 1 / 2"
    and ev: "ev = \<lparr>label = n, timestamp = ts,
      confidence = min (score c (lower text)) 1, matched_text = take 200 text\<rparr>"
    by (simp_all add: in_classify_iff)
  from ev have "0 \<le> confidence ev \<and> confidence ev \<le> 1 \<and> matched_text ev = take 200 text"
    using score_nonneg[of c "lower text"] by simp
  moreover from e s ev have "(label ev, c) \<in> set TEST_TAXONOMY \<and>
      score c (lower text) \<ge> 1 / 2 \<and> confidence ev = min (score c (lower text)) 1"
    by simp
  ultimately show ?thesis by blast
qed

theorem confidence_clamped_text_truncated_witness:
  "\<lparr>label = ''straight_leg_raise'', timestamp = 42, confidence = 1,
     matched_text = ''Now let's check your straight leg raise, please lie back''\<rparr>
     \<in> set (analyze_text_for_tests
              ''Now let's check your straight leg raise, please lie back'' 42) \<and>
   score straight_leg_raise_config
     (lower ''Now let's check your straight leg raise, please lie back'') = 51 / 50 \<and>
   (0::rat) \<le> 1 \<and> (1::rat) \<le> 1 \<and>
   ''Now let's check your straight leg raise, please lie back'' =
     take 200 ''Now let's check your straight leg raise, please lie back''"
proof -
  have h: "\<lparr>label = ''straight_leg_raise'', timestamp = 42, confidence = 1,
     matched_text = ''Now let's check your straight leg raise, please lie back''\<rparr>
     \<in> set (analyze_text_for_tests
              ''Now let's check your straight leg raise, please lie back'' 42)"
    by (simp add: scenario_result)
  have s: "score straight_leg_raise_config
     (lower ''Now let's check your straight leg raise, please lie back'') = 51 / 50"
    by (simp add: scenario_lower scenario_straight_leg_raise_score)
  from confidence_clamped_text_truncated[OF h] h s show ?thesis by simp
qed

text \<open>
  Claim C9. On the text "Now let's check your straight leg raise, please lie back" at
  timestamp \<open>42.0\<close> the classifier emits a candidate for \<open>straight_leg_raise\<close>, and only
  that one, with confidence \<open>1\<close> (the score \<open>0.12 + 0.7 + 0.2\<close> clamped), at least \<open>0.5\<close>:
  the keyword "straight leg" occurs in the lowercased text, the pattern
  \<open>straight\s+leg\s+(?:raise|test)\<close> is found in it, and so is the declaration phrase
  "let's".
\<close>

theorem straight_leg_raise_scenario:
  "analyze_text_for_tests ''Now let's check your straight leg raise, please lie back'' 42 =
     [\<lparr>label = ''straight_leg_raise'', timestamp = 42, confidence = 1,
       matched_text = ''Now let's check your straight leg raise, please lie back''\<rparr>] \<and>
   (\<exists>ev \<in> set (analyze_text_for_tests
                  ''Now let's check your straight leg raise, please lie back'' 42).
      label ev = ''straight_leg_raise'' \<and> timestamp ev = 42 \<and> confidence ev \<ge> 1 / 2) \<and>
   ''straight leg'' \<in> set (cfg_keywords straight_leg_raise_config) \<and>
   str_in ''straight leg'' (lower ''Now let's check your straight leg raise, please lie back'') \<and>
   seqs [lit ''straight'', ws, lit ''leg'', ws, alts [lit ''raise'', lit ''test'']]
     \<in> set (cfg_patterns straight_leg_raise_config) \<and>
   re_search True (seqs [lit ''straight'', ws, lit ''leg'', ws, alts [lit ''raise'', lit ''test'']])
     (lower ''Now let's check your straight leg raise, please lie back'') \<and>
   ''let's'' \<in> set declaration_phrases \<and>
   str_in ''let's'' (lower ''Now let's check your straight leg raise, please lie back'')"
proof -
  have kw: "str_in ''straight leg''
      (lower ''Now let's check your straight leg raise, please lie back'')"
    by (simp add: scenario_lower)
  have pat: "re_search True
      (seqs [lit ''straight'', ws, lit ''leg'', ws, alts [lit ''raise'', lit ''test'']])
      (lower ''Now let's check your straight leg raise, please lie back'')"
    by (simp add: scenario_lower regex_eval)
  have decl: "str_in ''let's''
      (lower ''Now let's check your straight leg raise, please lie back'')"
    by (simp add: scenario_lower)
  have mem: "''straight leg'' \<in> set (cfg_keywords straight_leg_raise_config)"
    "seqs [lit ''straight'', ws, lit ''leg'', ws, alts [lit ''raise'', lit ''test'']]
       \<in> set (cfg_patterns straight_leg_raise_config)"
    "''let's'' \<in> set declaration_phrases"
    by (simp_all add: straight_leg_raise_config_def declaration_phrases_def)
  show ?thesis
    using kw pat decl mem by (simp add: scenario_result)
qed

end
